theory Spec2Isabelle
  imports Complex_Main
begin

section \<open>A caching proxy in front of a JSON-RPC node (package node)\<close>

text \<open>
  The Go package keeps, per method name, the last response a background worker fetched
  from the upstream node, and answers inbound requests from that table when it can;
  everything else is forwarded. The embedding follows the source function by function.

  What the source takes from Go's standard library and from the outside world is a
  parameter (record \<open>env\<close>): the upstream node behind \<open>http.Client.Do\<close>, the
  environment variable \<open>NODE_ENDPOINT\<close>, the decoder \<open>json.Unmarshal\<close>, the validity
  checks of \<open>http.NewRequest\<close> and the byte-level writer of \<open>json.Marshal\<close>. What
  \<open>json.Marshal\<close> does with the struct tags of the source (field names, field order,
  \<open>omitempty\<close>) is modelled concretely, as a JSON document tree.

  Effects are explicit: every function that touches the table, the log, the ticker or
  the network takes a \<open>world\<close> and returns the new one. The \<open>trace\<close> lists, in order,
  the upstream calls made, the lines logged, the table writes and the ticker waits.
  The mutex of the source makes each table access atomic; the embedding runs whole
  calls one after the other, so goroutine interleaving inside a call is not modelled.

  \<open>run\<close> starts one \<open>cacheWorker\<close> goroutine for every entry of the package variable
  \<open>cacheMethods\<close> (the source initialises it to the empty list). What is proved of a
  worker is proved for every method name.
\<close>

subsection \<open>Data\<close>

type_synonym bytes = string

text \<open>An error value created by the standard library, by its message.\<close>

type_synonym lib_error = string

text \<open>
  A JSON document tree. It serves twice: as the value Go keeps in an \<open>interface{}\<close>
  after \<open>json.Unmarshal\<close> (\<open>JNull\<close> is the nil interface, numbers are the exact values
  of the \<open>float64\<close>s), and as the document \<open>json.Marshal\<close> writes.
\<close>

datatype json =
    JNull
  | JBool bool
  | JNumber rat
  | JString string
  | JArray "json list"
  | JObject "(string \<times> json) list"

text \<open>
  \<open>type JSONRPCMessage struct\<close>. The identifier is a Go \<open>int\<close>; the program only
  copies it and compares it with zero, so it is an unbounded integer here. \<open>Params\<close> is
  a slice: the nil slice and the empty slice are both the empty list (the only place
  that tells them apart, \<open>json.Marshal\<close>, omits both under \<open>omitempty\<close>).
\<close>

record JSONRPCMessage =
  msg_Version :: string
  msg_ID :: int
  msg_Method :: string
  msg_Params :: "string list"

text \<open>\<open>type JSONRPCResponse struct\<close>; \<open>Result\<close> is an \<open>interface{}\<close>.\<close>

record JSONRPCResponse =
  resp_Version :: string
  resp_ID :: int
  resp_Result :: json

text \<open>
  \<open>http.Request\<close> as far as the package uses it. \<open>req_Body\<close> is what
  \<open>ioutil.ReadAll(req.Body)\<close> yields: the bytes, or the read error.
\<close>

record http_Request =
  req_Method :: string
  req_URL :: string
  req_Header :: "string \<rightharpoonup> string list"
  req_Body :: "lib_error + bytes"

text \<open>\<open>http.Response\<close>: the status code and what reading the body yields.\<close>

record http_Response =
  StatusCode :: int
  resp_Body :: "lib_error + bytes"

text \<open>
  The errors the package returns: one passed on from the standard library, the one
  \<open>callMethod\<close> builds with \<open>"Status code is %d"\<close>, and the one \<open>GetCacheResponse\<close>
  builds with \<open>"Method %s is not supported caching"\<close>.
\<close>

datatype error =
    LibError lib_error
  | StatusCodeError int
  | NotSupportedCaching string

datatype event =
    EvDo http_Request
  | EvLog error
  | EvSet string JSONRPCResponse
  | EvTick

text \<open>
  \<open>cacheResponse\<close> is the field of \<open>NodeCache\<close>; \<open>trace\<close> is the history of effects.
\<close>

record world =
  cacheResponse :: "string \<rightharpoonup> JSONRPCResponse"
  trace :: "event list"

text \<open>
  The standard library and the outside world. \<open>client_Do\<close> is the upstream node: its
  answer may depend on everything that happened before the call. \<open>http_NewRequest_error\<close>
  is the check \<open>http.NewRequest\<close> makes on the HTTP method and the URL.
\<close>

record env =
  NODE_ENDPOINT :: string
  json_encode :: "json \<Rightarrow> bytes"
  json_Unmarshal_Message :: "bytes \<Rightarrow> lib_error + JSONRPCMessage"
  json_Unmarshal_Response :: "bytes \<Rightarrow> lib_error + JSONRPCResponse"
  http_NewRequest_error :: "string \<Rightarrow> string \<Rightarrow> lib_error option"
  client_Do :: "event list \<Rightarrow> http_Request \<Rightarrow> lib_error + http_Response"

subsection \<open>Marshalling the two structs\<close>

text \<open>
  \<open>json.Marshal\<close> of a struct writes its fields in declaration order under the names of
  the tags; a field tagged \<open>omitempty\<close> is left out when it is the empty string, the
  integer zero, a slice of length zero or a nil interface. Every field of both structs
  carries that tag.
\<close>

definition JSONRPCMessage_fields :: "JSONRPCMessage \<Rightarrow> (string \<times> json) list" where
  "JSONRPCMessage_fields m =
     (if msg_Version m = [] then [] else [(''jsonrpc'', JString (msg_Version m))]) @
     (if msg_ID m = 0 then [] else [(''id'', JNumber (of_int (msg_ID m)))]) @
     (if msg_Method m = [] then [] else [(''method'', JString (msg_Method m))]) @
     (if msg_Params m = [] then [] else [(''params'', JArray (map JString (msg_Params m)))])"

definition JSONRPCResponse_fields :: "JSONRPCResponse \<Rightarrow> (string \<times> json) list" where
  "JSONRPCResponse_fields r =
     (if resp_Version r = [] then [] else [(''jsonrpc'', JString (resp_Version r))]) @
     (if resp_ID r = 0 then [] else [(''id'', JNumber (of_int (resp_ID r)))]) @
     (if resp_Result r = JNull then [] else [(''result'', resp_Result r)])"

text \<open>
  \<open>json.Marshal\<close> returns an error only for values JSON cannot express (channels,
  functions, cycles, infinite floats). Strings, integers, string slices and values that
  came out of \<open>json.Unmarshal\<close> are none of these, so on these two structs it returns
  bytes; the callers' error branches are kept as the source has them.
\<close>

definition json_Marshal_Message :: "env \<Rightarrow> JSONRPCMessage \<Rightarrow> error + bytes" where
  "json_Marshal_Message e m = Inr (json_encode e (JObject (JSONRPCMessage_fields m)))"

definition json_Marshal_Response :: "env \<Rightarrow> JSONRPCResponse \<Rightarrow> error + bytes" where
  "json_Marshal_Response e r = Inr (json_encode e (JObject (JSONRPCResponse_fields r)))"

subsection \<open>Logging, the ticker, building requests\<close>

text \<open>\<open>log.Print\<close> and \<open>log.Println\<close>.\<close>

definition log_Print :: "error \<Rightarrow> world \<Rightarrow> world" where
  "log_Print err w = w\<lparr>trace := trace w @ [EvLog err]\<rparr>"

text \<open>\<open><-ticker.C\<close>: block until the ticker's next tick.\<close>

definition ticker_wait :: "world \<Rightarrow> world" where
  "ticker_wait w = w\<lparr>trace := trace w @ [EvTick]\<rparr>"

text \<open>
  \<open>http.NewRequest(method, url, body)\<close>: an error for an invalid method or URL;
  otherwise a request with an empty header, where the empty method stands for GET.
\<close>

definition http_NewRequest :: "env \<Rightarrow> string \<Rightarrow> string \<Rightarrow> bytes \<Rightarrow> error + http_Request" where
  "http_NewRequest e method url body =
     (case http_NewRequest_error e method url of
        Some err \<Rightarrow> Inl (LibError err)
      | None \<Rightarrow>
          Inr \<lparr>req_Method = (if method = [] then ''GET'' else method),
               req_URL = url,
               req_Header = Map.empty,
               req_Body = Inr body\<rparr>)"

definition userAgent :: string where
  "userAgent = ''Mozilla/5.0 (Macintosh; Intel Mac OS X 10_11_6) AppleWebKit/537.36 (KHTML, like Gecko) Chrome/56.0.2924.87 Safari/537.36''"

text \<open>\<open>Header.Set\<close>: the key's values become the one value given.\<close>

definition Header_Set :: "string \<Rightarrow> string \<Rightarrow> (string \<rightharpoonup> string list) \<Rightarrow> (string \<rightharpoonup> string list)" where
  "Header_Set k v h = h(k \<mapsto> [v])"

subsection \<open>The functions of the package\<close>

text \<open>\<open>NewNodeCache\<close>: an empty table (the workers are goroutines, see \<open>cacheWorker\<close>).\<close>

definition NewNodeCache :: world where
  "NewNodeCache = \<lparr>cacheResponse = Map.empty, trace = []\<rparr>"

definition makeRequest :: "env \<Rightarrow> string \<Rightarrow> world \<Rightarrow> (error + http_Request) \<times> world" where
  "makeRequest e method w =
     (let params = \<lparr>msg_Version = ''2.0'', msg_ID = 0, msg_Method = method, msg_Params = []\<rparr>
      in case json_Marshal_Message e params of
           Inl err \<Rightarrow> (Inl err, log_Print err w)
         | Inr paramBytes \<Rightarrow>
             (case http_NewRequest e ''POST'' (NODE_ENDPOINT e) paramBytes of
                Inl err \<Rightarrow> (Inl err, log_Print err w)
              | Inr req \<Rightarrow> (Inr req, w)))"

definition cloneRequest :: "env \<Rightarrow> http_Request \<Rightarrow> world \<Rightarrow> (error + http_Request) \<times> world" where
  "cloneRequest e req w =
     (case req_Body req of
        Inl err \<Rightarrow> (Inl (LibError err), log_Print (LibError err) w)
      | Inr body \<Rightarrow>
          (case http_NewRequest e (req_Method req) (NODE_ENDPOINT e) body of
             Inl err \<Rightarrow> (Inl err, log_Print err w)
           | Inr proxyReq \<Rightarrow>
               (Inr (proxyReq\<lparr>req_Header := Header_Set ''User-Agent'' userAgent (req_Header proxyReq)\<rparr>),
                w)))"

text \<open>
  \<open>callMethod\<close>. The call is recorded in the trace; the upstream sees the history
  before it.
\<close>

definition callMethod :: "env \<Rightarrow> http_Request \<Rightarrow> world \<Rightarrow> (error + bytes) \<times> world" where
  "callMethod e req w =
     (let w1 = w\<lparr>trace := trace w @ [EvDo req]\<rparr>
      in case client_Do e (trace w) req of
           Inl err \<Rightarrow> (Inl (LibError err), log_Print (LibError err) w1)
         | Inr resp \<Rightarrow>
             if StatusCode resp = 200 then
               (case resp_Body resp of
                  Inl err \<Rightarrow> (Inl (LibError err), log_Print (LibError err) w1)
                | Inr bodyBytes \<Rightarrow> (Inr bodyBytes, w1))
             else (Inl (StatusCodeError (StatusCode resp)), w1))"

definition SetCacheResponse :: "string \<Rightarrow> JSONRPCResponse \<Rightarrow> world \<Rightarrow> world" where
  "SetCacheResponse method message w =
     w\<lparr>cacheResponse := (cacheResponse w)(method \<mapsto> message),
       trace := trace w @ [EvSet method message]\<rparr>"

text \<open>
  \<open>GetCacheResponse\<close>. The table holds structs, not pointers: the assignment to \<open>ID\<close>
  changes the copy read from the table.
\<close>

definition GetCacheResponse :: "env \<Rightarrow> JSONRPCMessage \<Rightarrow> world \<Rightarrow> error + bytes" where
  "GetCacheResponse e message w =
     (case cacheResponse w (msg_Method message) of
        Some jsonRPCResponse \<Rightarrow>
          (case json_Marshal_Response e (jsonRPCResponse\<lparr>resp_ID := msg_ID message\<rparr>) of
             Inl err \<Rightarrow> Inl err
           | Inr result \<Rightarrow> Inr result)
      | None \<Rightarrow> Inl (NotSupportedCaching (msg_Method message)))"

text \<open>
  \<open>HandleRequest\<close>. \<open>proxy\<close> is the tail of the function, reached when the body does
  not parse and when \<open>GetCacheResponse\<close> returns an error.
\<close>

definition HandleRequest :: "env \<Rightarrow> http_Request \<Rightarrow> world \<Rightarrow> (error + bytes) \<times> world" where
  "HandleRequest e req w =
     (case req_Body req of
        Inl err \<Rightarrow> (Inl (LibError err), log_Print (LibError err) w)
      | Inr body \<Rightarrow>
          (let proxy =
                 (case cloneRequest e (req\<lparr>req_Body := Inr body\<rparr>) w of
                    (Inl err, w1) \<Rightarrow> (Inl err, log_Print err w1)
                  | (Inr proxyReq, w1) \<Rightarrow> callMethod e proxyReq w1)
           in case json_Unmarshal_Message e body of
                Inl err \<Rightarrow> proxy
              | Inr message \<Rightarrow>
                  (case GetCacheResponse e message w of
                     Inr cacheResp \<Rightarrow> (Inr cacheResp, w)
                   | Inl respErr \<Rightarrow> proxy)))"

text \<open>One pass through the body of the \<open>for\<close> loop of \<open>cacheWorker\<close>.\<close>

definition cacheWorker_body :: "env \<Rightarrow> string \<Rightarrow> world \<Rightarrow> world" where
  "cacheWorker_body e method w =
     (case makeRequest e method w of
        (Inl err, w1) \<Rightarrow> ticker_wait (log_Print err w1)
      | (Inr req, w1) \<Rightarrow>
          (case cloneRequest e req w1 of
             (Inl err, w2) \<Rightarrow> ticker_wait (log_Print err w2)
           | (Inr proxyReq, w2) \<Rightarrow>
               (case callMethod e proxyReq w2 of
                  (Inl err, w3) \<Rightarrow> ticker_wait (log_Print err w3)
                | (Inr resp, w3) \<Rightarrow>
                    (case json_Unmarshal_Response e resp of
                       Inl err \<Rightarrow> ticker_wait (log_Print (LibError err) w3)
                     | Inr jsonRPCResponse \<Rightarrow>
                         ticker_wait (SetCacheResponse method jsonRPCResponse w3)))))"

text \<open>
  \<open>cacheWorker\<close>: the loop has no exit. The result is the world in which the function
  returns, if it ever does.
\<close>

partial_function (option) cacheWorker :: "env \<Rightarrow> string \<Rightarrow> world \<Rightarrow> world option" where
  "cacheWorker e method w = cacheWorker e method (cacheWorker_body e method w)"

text \<open>The world after the first \<open>n\<close> passes of the loop.\<close>

fun cacheWorker_passes :: "nat \<Rightarrow> env \<Rightarrow> string \<Rightarrow> world \<Rightarrow> world" where
  "cacheWorker_passes 0 e method w = w"
| "cacheWorker_passes (Suc n) e method w =
     cacheWorker_passes n e method (cacheWorker_body e method w)"

subsection \<open>Notions the properties are stated with\<close>

text \<open>
  The request a worker sends for \<open>method\<close>: what \<open>makeRequest\<close> followed by
  \<open>cloneRequest\<close> yields when \<open>http.NewRequest\<close> accepts the endpoint.
\<close>

definition refreshRequest :: "env \<Rightarrow> string \<Rightarrow> http_Request" where
  "refreshRequest e method =
     \<lparr>req_Method = ''POST'',
      req_URL = NODE_ENDPOINT e,
      req_Header = [''User-Agent'' \<mapsto> [userAgent]],
      req_Body = Inr (json_encode e (JObject (JSONRPCMessage_fields
        \<lparr>msg_Version = ''2.0'', msg_ID = 0, msg_Method = method, msg_Params = []\<rparr>)))\<rparr>"

text \<open>The request \<open>HandleRequest\<close> sends upstream for an inbound request with body \<open>body\<close>.\<close>

definition forwardedRequest :: "env \<Rightarrow> http_Request \<Rightarrow> bytes \<Rightarrow> http_Request" where
  "forwardedRequest e req body =
     \<lparr>req_Method = (if req_Method req = [] then ''GET'' else req_Method req),
      req_URL = NODE_ENDPOINT e,
      req_Header = [''User-Agent'' \<mapsto> [userAgent]],
      req_Body = Inr body\<rparr>"

text \<open>What \<open>callMethod\<close> makes of an answer of the upstream.\<close>

definition upstream_outcome :: "lib_error + http_Response \<Rightarrow> error + bytes" where
  "upstream_outcome answer =
     (case answer of
        Inl err \<Rightarrow> Inl (LibError err)
      | Inr resp \<Rightarrow>
          if StatusCode resp = 200 then
            (case resp_Body resp of Inl err \<Rightarrow> Inl (LibError err) | Inr b \<Rightarrow> Inr b)
          else Inl (StatusCodeError (StatusCode resp)))"

text \<open>
  A refresh fails on a transport error (of the call or while reading the body), on a
  status other than 200, and on a payload that \<open>json.Unmarshal\<close> rejects.
\<close>

definition refresh_fails :: "env \<Rightarrow> lib_error + http_Response \<Rightarrow> bool" where
  "refresh_fails e answer =
     (case upstream_outcome answer of
        Inl err \<Rightarrow> True
      | Inr b \<Rightarrow> isl (json_Unmarshal_Response e b))"

fun is_do :: "event \<Rightarrow> bool" where
  "is_do (EvDo r) = True"
| "is_do ev = False"

fun is_log :: "event \<Rightarrow> bool" where
  "is_log (EvLog err) = True"
| "is_log ev = False"

fun is_set :: "event \<Rightarrow> bool" where
  "is_set (EvSet m r) = True"
| "is_set ev = False"

fun is_set_of :: "string \<Rightarrow> event \<Rightarrow> bool" where
  "is_set_of method (EvSet m r) = (m = method)"
| "is_set_of method ev = False"

fun is_tick :: "event \<Rightarrow> bool" where
  "is_tick EvTick = True"
| "is_tick ev = False"

text \<open>The events a step added: the trace only grows.\<close>

definition new_events :: "world \<Rightarrow> world \<Rightarrow> event list" where
  "new_events w w' = drop (length (trace w)) (trace w')"

text \<open>
  The worker's state machine, read off a trace; \<open>hist\<close> is the history before the event.
  \<open>Wait\<close>: blocked on the ticker. \<open>Call\<close>: about to call the upstream; the call is the
  refresh request of the method, and a pass logs here only when the request cannot be
  built. \<open>Outcome\<close>: the call was made, with what \<open>callMethod\<close> makes of the answer the
  upstream gave to it; on bytes that parse the only step is the write of the parsed
  response under the method, otherwise the only step is the log of the failure.
  \<open>Logged\<close>: the failure was logged (it may be logged again), the wait is next.
\<close>

datatype phase = Wait | Call | Outcome "error + bytes" | Logged error

fun phase_step :: "env \<Rightarrow> string \<Rightarrow> event list \<Rightarrow> phase \<Rightarrow> event \<Rightarrow> phase option" where
  "phase_step e method hist Wait EvTick = Some Call"
| "phase_step e method hist Call (EvDo r) =
     (if http_NewRequest_error e ''POST'' (NODE_ENDPOINT e) = None \<and> r = refreshRequest e method
      then Some (Outcome (upstream_outcome (client_Do e hist r)))
      else None)"
| "phase_step e method hist Call (EvLog err) =
     (case http_NewRequest_error e ''POST'' (NODE_ENDPOINT e) of
        None \<Rightarrow> None
      | Some refused \<Rightarrow> if err = LibError refused then Some (Logged err) else None)"
| "phase_step e method hist (Outcome (Inr b)) (EvSet m r) =
     (if m = method \<and> json_Unmarshal_Response e b = Inr r then Some Wait else None)"
| "phase_step e method hist (Outcome (Inr b)) (EvLog err) =
     (case json_Unmarshal_Response e b of
        Inl bad \<Rightarrow> if err = LibError bad then Some (Logged err) else None
      | Inr r \<Rightarrow> None)"
| "phase_step e method hist (Outcome (Inl failure)) (EvLog err) =
     (if err = failure then Some (Logged err) else None)"
| "phase_step e method hist (Logged failure) (EvLog err) =
     (if err = failure then Some (Logged failure) else None)"
| "phase_step e method hist (Logged failure) EvTick = Some Call"
| "phase_step e method hist p ev = None"

fun phases_run :: "env \<Rightarrow> string \<Rightarrow> event list \<Rightarrow> phase \<Rightarrow> event list \<Rightarrow> phase option" where
  "phases_run e method hist p [] = Some p"
| "phases_run e method hist p (ev # evs) =
     (case phase_step e method hist p ev of
        None \<Rightarrow> None
      | Some p' \<Rightarrow> phases_run e method (hist @ [ev]) p' evs)"

text \<open>The table after the writes among the events.\<close>

fun store_event :: "(string \<rightharpoonup> JSONRPCResponse) \<Rightarrow> event \<Rightarrow> (string \<rightharpoonup> JSONRPCResponse)" where
  "store_event cached (EvSet m r) = cached(m \<mapsto> r)"
| "store_event cached ev = cached"

text \<open>
  What happens to a \<open>NodeCache\<close> over its lifetime: passes of the workers, inbound
  requests, and direct calls of the exported \<open>SetCacheResponse\<close>, in any order.
\<close>

datatype action =
    Refresh string
  | Request http_Request
  | Put string JSONRPCResponse

fun perform :: "env \<Rightarrow> action \<Rightarrow> world \<Rightarrow> world" where
  "perform e (Refresh method) w = cacheWorker_body e method w"
| "perform e (Request req) w = snd (HandleRequest e req w)"
| "perform e (Put method message) w = SetCacheResponse method message w"

fun run_actions :: "env \<Rightarrow> action list \<Rightarrow> world \<Rightarrow> world" where
  "run_actions e [] w = w"
| "run_actions e (a # as) w = run_actions e as (perform e a w)"

subsection \<open>A sample environment\<close>

text \<open>
  A node that knows the gas price, and a writer for document trees (strings are
  written without escapes, whole numbers in decimal).
\<close>

fun example_digits :: "nat \<Rightarrow> string" where
  "example_digits n =
     (if n < 10 then [''0123456789'' ! n]
      else example_digits (n div 10) @ [''0123456789'' ! (n mod 10)])"

definition example_number :: "rat \<Rightarrow> string" where
  "example_number q =
     (case quotient_of q of
        (n, d) \<Rightarrow>
          (if n < 0 then ''-'' else []) @ example_digits (nat \<bar>n\<bar>) @
          (if d = 1 then [] else ''/'' @ example_digits (nat d)))"

fun example_commas :: "string list \<Rightarrow> string" where
  "example_commas [] = []"
| "example_commas [x] = x"
| "example_commas (x # y # ys) = x @ '','' @ example_commas (y # ys)"

fun example_encode :: "json \<Rightarrow> bytes" where
  "example_encode JNull = ''null''"
| "example_encode (JBool b) = (if b then ''true'' else ''false'')"
| "example_encode (JNumber q) = example_number q"
| "example_encode (JString s) = ''\"'' @ s @ ''\"''"
| "example_encode (JArray xs) = ''['' @ example_commas (map example_encode xs) @ '']''"
| "example_encode (JObject fs) =
     ''{'' @ example_commas (map (\<lambda>kv. ''\"'' @ fst kv @ ''\":'' @ example_encode (snd kv)) fs) @ ''}''"

definition example_gasPrice :: JSONRPCResponse where
  "example_gasPrice = \<lparr>resp_Version = ''2.0'', resp_ID = 0, resp_Result = JString ''0x4a817c800''\<rparr>"

definition example_Unmarshal_Response :: "bytes \<Rightarrow> lib_error + JSONRPCResponse" where
  "example_Unmarshal_Response b =
     (if b = ''{\"jsonrpc\":\"2.0\",\"result\":\"0x4a817c800\"}'' then Inr example_gasPrice
      else Inl ''invalid character'')"

definition example_Unmarshal_Message :: "bytes \<Rightarrow> lib_error + JSONRPCMessage" where
  "example_Unmarshal_Message b =
     (if b = ''{\"id\":7,\"method\":\"eth_gasPrice\"}'' then
        Inr \<lparr>msg_Version = [], msg_ID = 7, msg_Method = ''eth_gasPrice'', msg_Params = []\<rparr>
      else if b = ''{\"jsonrpc\":\"2.0\",\"id\":42,\"method\":\"eth_gasPrice\"}'' then
        Inr \<lparr>msg_Version = ''2.0'', msg_ID = 42, msg_Method = ''eth_gasPrice'', msg_Params = []\<rparr>
      else if b = ''{\"jsonrpc\":\"2.0\",\"method\":\"eth_gasPrice\"}'' then
        Inr \<lparr>msg_Version = ''2.0'', msg_ID = 0, msg_Method = ''eth_gasPrice'', msg_Params = []\<rparr>
      else if b = ''{\"jsonrpc\":\"2.0\",\"id\":1,\"method\":\"eth_blockNumber\"}'' then
        Inr \<lparr>msg_Version = ''2.0'', msg_ID = 1, msg_Method = ''eth_blockNumber'', msg_Params = []\<rparr>
      else if b = ''{\"jsonrpc\":\"2.0\",\"id\":0,\"method\":\"eth_gasPrice\"}'' then
        Inr \<lparr>msg_Version = ''2.0'', msg_ID = 0, msg_Method = ''eth_gasPrice'', msg_Params = []\<rparr>
      else Inl ''invalid character'')"

text \<open>Two upstreams: one that answers every call with the gas price, one that is down.\<close>

definition example_node_up :: "event list \<Rightarrow> http_Request \<Rightarrow> lib_error + http_Response" where
  "example_node_up history req =
     Inr \<lparr>StatusCode = 200, resp_Body = Inr ''{\"jsonrpc\":\"2.0\",\"result\":\"0x4a817c800\"}''\<rparr>"

definition example_node_500 :: "event list \<Rightarrow> http_Request \<Rightarrow> lib_error + http_Response" where
  "example_node_500 history req =
     Inr \<lparr>StatusCode = 500, resp_Body = Inr ''Internal Server Error''\<rparr>"

text \<open>An upstream that answers its first call with the gas price and is down afterwards.\<close>

definition example_node_once :: "event list \<Rightarrow> http_Request \<Rightarrow> lib_error + http_Response" where
  "example_node_once history req =
     (if filter is_do history = [] then
        Inr \<lparr>StatusCode = 200, resp_Body = Inr ''{\"jsonrpc\":\"2.0\",\"result\":\"0x4a817c800\"}''\<rparr>
      else Inr \<lparr>StatusCode = 500, resp_Body = Inr ''Internal Server Error''\<rparr>)"

definition exampleEnv :: "(event list \<Rightarrow> http_Request \<Rightarrow> lib_error + http_Response) \<Rightarrow> env" where
  "exampleEnv node =
     \<lparr>NODE_ENDPOINT = ''http://localhost:8545'',
      json_encode = example_encode,
      json_Unmarshal_Message = example_Unmarshal_Message,
      json_Unmarshal_Response = example_Unmarshal_Response,
      http_NewRequest_error = (\<lambda>method url. None),
      client_Do = node\<rparr>"

text \<open>
  A deployment whose \<open>NODE_ENDPOINT\<close> is not a URL (the port is not a number):
  \<open>http.NewRequest\<close> returns the error of \<open>url.Parse\<close>.
\<close>

definition example_misconfigured :: env where
  "example_misconfigured =
     (exampleEnv example_node_up)
       \<lparr>NODE_ENDPOINT := ''http://localhost:port'',
        http_NewRequest_error :=
          (\<lambda>method url. if url = ''http://localhost:port''
             then Some ''parse http://localhost:port: invalid port \":port\" after host''
             else None)\<rparr>"

text \<open>A table that holds another entry for the gas price.\<close>

definition example_warm_other :: world where
  "example_warm_other =
     \<lparr>cacheResponse = [''eth_gasPrice'' \<mapsto>
        \<lparr>resp_Version = ''2.0'', resp_ID = 5, resp_Result = JString ''0x3b9aca00''\<rparr>],
      trace = []\<rparr>"

text \<open>An inbound POST with the given body, and a table that holds the gas price.\<close>

definition example_inbound :: "bytes \<Rightarrow> http_Request" where
  "example_inbound body =
     \<lparr>req_Method = ''POST'', req_URL = ''/'',
      req_Header = [''Content-Type'' \<mapsto> [''application/json'']],
      req_Body = Inr body\<rparr>"

definition example_warm :: world where
  "example_warm = \<lparr>cacheResponse = [''eth_gasPrice'' \<mapsto> example_gasPrice], trace = []\<rparr>"

section \<open>Properties\<close>

subsection \<open>The loop of the worker has no exit\<close>

lemma cacheWorker_not_Some:
  assumes "cacheWorker e method w = Some w'"
  shows False
proof -
  have "(\<lambda>e method w w'. False) e method w w'"
    by (rule cacheWorker.raw_induct [where P = "\<lambda>e method w w'. False", OF _ assms]) blast
  then show False .
qed

lemma cacheWorker_never_returns: "cacheWorker e method w = None"
  using cacheWorker_not_Some [of e "method" w] by (cases "cacheWorker e method w") auto

subsection \<open>Building requests and calling the upstream\<close>

lemma makeRequest_built:
  assumes "http_NewRequest_error e ''POST'' (NODE_ENDPOINT e) = None"
  shows "makeRequest e method w =
    (Inr \<lparr>req_Method = ''POST'', req_URL = NODE_ENDPOINT e, req_Header = Map.empty,
          req_Body = Inr (json_encode e (JObject (JSONRPCMessage_fields
            \<lparr>msg_Version = ''2.0'', msg_ID = 0, msg_Method = method, msg_Params = []\<rparr>)))\<rparr>, w)"
  using assms by (simp add: makeRequest_def json_Marshal_Message_def http_NewRequest_def)

lemma makeRequest_refused:
  assumes "http_NewRequest_error e ''POST'' (NODE_ENDPOINT e) = Some err"
  shows "makeRequest e method w = (Inl (LibError err), log_Print (LibError err) w)"
  using assms by (simp add: makeRequest_def json_Marshal_Message_def http_NewRequest_def)

lemma cloneRequest_built:
  assumes "req_Body req = Inr body"
    and "http_NewRequest_error e (req_Method req) (NODE_ENDPOINT e) = None"
  shows "cloneRequest e req w = (Inr (forwardedRequest e req body), w)"
  using assms
  by (simp add: cloneRequest_def http_NewRequest_def forwardedRequest_def Header_Set_def)

lemma cloneRequest_refused:
  assumes "req_Body req = Inr body"
    and "http_NewRequest_error e (req_Method req) (NODE_ENDPOINT e) = Some err"
  shows "cloneRequest e req w = (Inl (LibError err), log_Print (LibError err) w)"
  using assms by (simp add: cloneRequest_def http_NewRequest_def)

lemma cloneRequest_cache: "cacheResponse (snd (cloneRequest e req w)) = cacheResponse w"
  by (simp add: cloneRequest_def log_Print_def split: sum.splits)

lemma cloneRequest_trace:
  "\<exists>logs. trace (snd (cloneRequest e req w)) = trace w @ logs \<and> list_all is_log logs"
  by (simp add: cloneRequest_def log_Print_def split: sum.splits)

lemma callMethod_fst: "fst (callMethod e req w) = upstream_outcome (client_Do e (trace w) req)"
  by (simp add: callMethod_def upstream_outcome_def Let_def split: sum.splits)

lemma callMethod_cache: "cacheResponse (snd (callMethod e req w)) = cacheResponse w"
  by (simp add: callMethod_def log_Print_def Let_def split: sum.splits)

lemma callMethod_trace:
  "\<exists>logs. trace (snd (callMethod e req w)) = trace w @ EvDo req # logs \<and> list_all is_log logs"
  by (simp add: callMethod_def log_Print_def Let_def split: sum.splits)

lemma callMethod_effect:
  "cacheResponse (snd (callMethod e req w)) = cacheResponse w \<and>
   (\<exists>logs. trace (snd (callMethod e req w)) = trace w @ EvDo req # logs \<and> list_all is_log logs \<and>
      (logs \<noteq> [] \<longrightarrow> isl (fst (callMethod e req w))))"
  by (simp add: callMethod_def log_Print_def Let_def split: sum.splits)

lemma logs_hold_no_call: "list_all is_log xs \<Longrightarrow> filter is_do xs = []"
  by (induction xs) (auto elim: is_log.elims)

lemma logs_hold_no_set: "list_all is_log xs \<Longrightarrow> filter is_set xs = []"
  by (induction xs) (auto elim: is_log.elims)

lemma logs_hold_no_tick: "list_all is_log xs \<Longrightarrow> filter is_tick xs = []"
  by (induction xs) (auto elim: is_log.elims)

lemma callMethod_calls_once:
  "filter is_do (new_events w (snd (callMethod e req w))) = [EvDo req]"
proof -
  from callMethod_trace [of e req w]
  obtain logs where t: "trace (snd (callMethod e req w)) = trace w @ EvDo req # logs"
    and l: "list_all is_log logs" by auto
  from t have "new_events w (snd (callMethod e req w)) = EvDo req # logs"
    by (simp add: new_events_def)
  with l show ?thesis by (simp add: logs_hold_no_call)
qed

lemma callMethod_extends:
  "trace (snd (callMethod e req w)) = trace w @ new_events w (snd (callMethod e req w))"
proof -
  from callMethod_trace [of e req w]
  obtain logs where "trace (snd (callMethod e req w)) = trace w @ EvDo req # logs"
    by auto
  then show ?thesis by (simp add: new_events_def)
qed

lemma upstream_outcome_Inr:
  "(upstream_outcome answer = Inr b) =
     (\<exists>resp. answer = Inr resp \<and> StatusCode resp = 200 \<and> resp_Body resp = Inr b)"
  by (cases answer) (auto simp: upstream_outcome_def split: sum.splits)

lemma upstream_outcome_not_miss: "upstream_outcome answer \<noteq> Inl (NotSupportedCaching m)"
  by (cases answer) (auto simp: upstream_outcome_def split: sum.splits)

subsection \<open>The request handler\<close>

lemma HandleRequest_hit:
  assumes "req_Body req = Inr body"
    and "json_Unmarshal_Message e body = Inr message"
    and "cacheResponse w (msg_Method message) = Some cached"
  shows "HandleRequest e req w =
    (Inr (json_encode e (JObject (JSONRPCResponse_fields (cached\<lparr>resp_ID := msg_ID message\<rparr>)))), w)"
  using assms
  by (simp add: HandleRequest_def GetCacheResponse_def json_Marshal_Response_def Let_def)

lemma HandleRequest_proxy:
  assumes "req_Body req = Inr body"
    and "isl (json_Unmarshal_Message e body) \<or>
         cacheResponse w (msg_Method (projr (json_Unmarshal_Message e body))) = None"
  shows "HandleRequest e req w =
    (case cloneRequest e (req\<lparr>req_Body := Inr body\<rparr>) w of
       (Inl err, w1) \<Rightarrow> (Inl err, log_Print err w1)
     | (Inr proxyReq, w1) \<Rightarrow> callMethod e proxyReq w1)"
  using assms
  by (cases "json_Unmarshal_Message e body")
     (simp_all add: HandleRequest_def GetCacheResponse_def Let_def)

lemma HandleRequest_forward:
  assumes "req_Body req = Inr body"
    and "isl (json_Unmarshal_Message e body) \<or>
         cacheResponse w (msg_Method (projr (json_Unmarshal_Message e body))) = None"
    and "http_NewRequest_error e (req_Method req) (NODE_ENDPOINT e) = None"
  shows "HandleRequest e req w = callMethod e (forwardedRequest e req body) w"
proof -
  have "cloneRequest e (req\<lparr>req_Body := Inr body\<rparr>) w = (Inr (forwardedRequest e req body), w)"
    using cloneRequest_built [of "req\<lparr>req_Body := Inr body\<rparr>" body e w] assms(3)
    by (simp add: forwardedRequest_def)
  then show ?thesis
    by (simp add: HandleRequest_proxy [OF assms(1,2)])
qed

lemma HandleRequest_frame:
  "cacheResponse (snd (HandleRequest e req w)) = cacheResponse w \<and>
   (\<exists>evs. trace (snd (HandleRequest e req w)) = trace w @ evs \<and> filter is_set evs = [])"
proof (cases "req_Body req")
  case (Inl err)
  then show ?thesis by (simp add: HandleRequest_def log_Print_def)
next
  case (Inr body)
  let ?proxy = "case cloneRequest e (req\<lparr>req_Body := Inr body\<rparr>) w of
       (Inl err, w1) \<Rightarrow> (Inl err, log_Print err w1)
     | (Inr proxyReq, w1) \<Rightarrow> callMethod e proxyReq w1"
  obtain r1 w1 where cl: "cloneRequest e (req\<lparr>req_Body := Inr body\<rparr>) w = (r1, w1)"
    by (cases "cloneRequest e (req\<lparr>req_Body := Inr body\<rparr>) w")
  from cloneRequest_cache [of e "req\<lparr>req_Body := Inr body\<rparr>" w] cl
  have c1: "cacheResponse w1 = cacheResponse w" by simp
  from cloneRequest_trace [of e "req\<lparr>req_Body := Inr body\<rparr>" w] cl
  obtain logs where t1: "trace w1 = trace w @ logs" and l1: "list_all is_log logs" by auto
  have nolog: "filter is_set xs = []" if "list_all is_log xs" for xs
    using that by (induction xs) (auto elim: is_log.elims)
  have proxy: "cacheResponse (snd ?proxy) = cacheResponse w \<and>
      (\<exists>evs. trace (snd ?proxy) = trace w @ evs \<and> filter is_set evs = [])"
  proof (cases r1)
    case (Inl err)
    with cl c1 t1 l1 show ?thesis by (simp add: log_Print_def nolog)
  next
    case (Inr proxyReq)
    from callMethod_trace [of e proxyReq w1]
    obtain logs' where t2: "trace (snd (callMethod e proxyReq w1)) = trace w1 @ EvDo proxyReq # logs'"
      and l2: "list_all is_log logs'" by auto
    from Inr cl c1 t1 t2 l1 l2 show ?thesis
      by (simp add: callMethod_cache nolog)
  qed
  show ?thesis
  proof (cases "json_Unmarshal_Message e body")
    case (Inl err)
    with Inr proxy show ?thesis by (simp add: HandleRequest_def Let_def)
  next
    case parsed: (Inr message)
    show ?thesis
    proof (cases "GetCacheResponse e message w")
      case (Inl respErr)
      with Inr parsed proxy show ?thesis by (simp add: HandleRequest_def Let_def)
    next
      case hit: (Inr cacheResp)
      with Inr parsed show ?thesis by (simp add: HandleRequest_def Let_def)
    qed
  qed
qed

lemma JSONRPCResponse_fields_keys:
  "fst ` set (JSONRPCResponse_fields r) =
     (if resp_Version r = [] then {} else {''jsonrpc''}) \<union>
     (if resp_ID r = 0 then {} else {''id''}) \<union>
     (if resp_Result r = JNull then {} else {''result''})"
  by (simp add: JSONRPCResponse_fields_def)

lemma GetCacheResponse_miss:
  "isl (GetCacheResponse e message w) = (cacheResponse w (msg_Method message) = None)"
  by (simp add: GetCacheResponse_def json_Marshal_Response_def split: option.splits)

lemma GetCacheResponse_NotFound:
  "(GetCacheResponse e message w = Inl (NotSupportedCaching (msg_Method message))) =
     (cacheResponse w (msg_Method message) = None)"
  by (simp add: GetCacheResponse_def json_Marshal_Response_def split: option.splits)

subsection \<open>One pass of the worker\<close>

lemma cacheWorker_body_built:
  assumes "http_NewRequest_error e ''POST'' (NODE_ENDPOINT e) = None"
  shows "cacheWorker_body e method w =
    (case callMethod e (refreshRequest e method) w of
       (Inl err, w3) \<Rightarrow> ticker_wait (log_Print err w3)
     | (Inr resp, w3) \<Rightarrow>
         (case json_Unmarshal_Response e resp of
            Inl err \<Rightarrow> ticker_wait (log_Print (LibError err) w3)
          | Inr r \<Rightarrow> ticker_wait (SetCacheResponse method r w3)))"
proof -
  let ?req = "\<lparr>req_Method = ''POST'', req_URL = NODE_ENDPOINT e, req_Header = Map.empty,
          req_Body = Inr (json_encode e (JObject (JSONRPCMessage_fields
            \<lparr>msg_Version = ''2.0'', msg_ID = 0, msg_Method = method, msg_Params = []\<rparr>)))\<rparr>"
  have "cloneRequest e ?req w = (Inr (refreshRequest e method), w)"
    using assms
    by (simp add: cloneRequest_def http_NewRequest_def refreshRequest_def Header_Set_def)
  then show ?thesis
    by (simp add: cacheWorker_body_def makeRequest_built [OF assms])
qed

lemma cacheWorker_body_refused:
  assumes "http_NewRequest_error e ''POST'' (NODE_ENDPOINT e) = Some err"
  shows "cacheWorker_body e method w =
    ticker_wait (log_Print (LibError err) (log_Print (LibError err) w))"
  by (simp add: cacheWorker_body_def makeRequest_refused [OF assms])

text \<open>One pass of the loop, when the request can be built: it fails or it stores.\<close>

lemma cacheWorker_body_cases:
  assumes "http_NewRequest_error e ''POST'' (NODE_ENDPOINT e) = None"
  shows "(refresh_fails e (client_Do e (trace w) (refreshRequest e m)) \<and>
          cacheResponse (cacheWorker_body e m w) = cacheResponse w \<and>
          (\<exists>logs. logs \<noteq> [] \<and> list_all is_log logs \<and>
             trace (cacheWorker_body e m w) = trace w @ EvDo (refreshRequest e m) # logs @ [EvTick]))
       \<or> (\<not> refresh_fails e (client_Do e (trace w) (refreshRequest e m)) \<and>
          (\<exists>r. cacheResponse (cacheWorker_body e m w) = (cacheResponse w)(m \<mapsto> r) \<and>
             trace (cacheWorker_body e m w) =
               trace w @ [EvDo (refreshRequest e m), EvSet m r, EvTick]))"
proof -
  let ?rq = "refreshRequest e m"
  obtain res w3 where cm: "callMethod e ?rq w = (res, w3)"
    by (cases "callMethod e ?rq w")
  from callMethod_effect [of e ?rq w] cm
  obtain logs where c3: "cacheResponse w3 = cacheResponse w"
    and t3: "trace w3 = trace w @ EvDo ?rq # logs"
    and l3: "list_all is_log logs"
    and n3: "logs \<noteq> [] \<longrightarrow> isl res"
    by auto
  from callMethod_fst [of e ?rq w] cm
  have out: "upstream_outcome (client_Do e (trace w) ?rq) = res" by simp
  show ?thesis
  proof (cases res)
    case (Inl err)
    from Inl cm have "cacheWorker_body e m w = ticker_wait (log_Print err w3)"
      by (simp add: cacheWorker_body_built [OF assms])
    with Inl out c3 t3 l3 show ?thesis
      by (auto simp: refresh_fails_def ticker_wait_def log_Print_def
          intro!: exI [of _ "logs @ [EvLog err]"])
  next
    case (Inr b)
    with n3 have nologs: "logs = []" by auto
    show ?thesis
    proof (cases "json_Unmarshal_Response e b")
      case bad: (Inl err)
      from Inr bad cm have "cacheWorker_body e m w = ticker_wait (log_Print (LibError err) w3)"
        by (simp add: cacheWorker_body_built [OF assms])
      with Inr bad out c3 t3 nologs show ?thesis
        by (auto simp: refresh_fails_def ticker_wait_def log_Print_def
            intro!: exI [of _ "[EvLog (LibError err)]"])
    next
      case good: (Inr r)
      from Inr good cm have "cacheWorker_body e m w = ticker_wait (SetCacheResponse m r w3)"
        by (simp add: cacheWorker_body_built [OF assms])
      with Inr good out c3 t3 nologs show ?thesis
        by (auto simp: refresh_fails_def ticker_wait_def SetCacheResponse_def)
    qed
  qed
qed

lemma refresh_envelope_fields:
  "JSONRPCMessage_fields \<lparr>msg_Version = ''2.0'', msg_ID = 0, msg_Method = m, msg_Params = []\<rparr> =
     (''jsonrpc'', JString ''2.0'') # (if m = [] then [] else [(''method'', JString m)])"
  by (simp add: JSONRPCMessage_fields_def)

subsection \<open>The trace of a worker and the state machine\<close>

lemma phases_run_append:
  "phases_run e m hist p (xs @ ys) =
     (case phases_run e m hist p xs of
        None \<Rightarrow> None
      | Some p' \<Rightarrow> phases_run e m (hist @ xs) p' ys)"
  by (induction xs arbitrary: hist p) (auto split: option.splits)

text \<open>One pass of the loop, event by event.\<close>

lemma cacheWorker_body_pass:
  "\<exists>evs. trace (cacheWorker_body e m w) = trace w @ evs \<and>
         phases_run e m (trace w) Call evs = Some Call \<and>
         length (filter is_tick evs) = 1 \<and>
         cacheResponse (cacheWorker_body e m w) = foldl store_event (cacheResponse w) evs"
proof (cases "http_NewRequest_error e ''POST'' (NODE_ENDPOINT e)")
  case (Some refused)
  then show ?thesis
    by (simp add: cacheWorker_body_refused [OF Some] ticker_wait_def log_Print_def)
next
  case None
  let ?rq = "refreshRequest e m"
  note body = cacheWorker_body_built [OF None, of m w]
  show ?thesis
  proof (cases "client_Do e (trace w) ?rq")
    case (Inl err)
    with None show ?thesis
      by (simp add: body callMethod_def Let_def ticker_wait_def log_Print_def upstream_outcome_def)
  next
    case (Inr resp)
    show ?thesis
    proof (cases "StatusCode resp = 200")
      case False
      with None Inr show ?thesis
        by (simp add: body callMethod_def Let_def ticker_wait_def log_Print_def upstream_outcome_def)
    next
      case True
      show ?thesis
      proof (cases "resp_Body resp")
        case unread: (Inl err)
        with None Inr True show ?thesis
          by (simp add: body callMethod_def Let_def ticker_wait_def log_Print_def upstream_outcome_def)
      next
        case bytes: (Inr b)
        show ?thesis
        proof (cases "json_Unmarshal_Response e b")
          case (Inl bad)
          with None Inr True bytes show ?thesis
            by (simp add: body callMethod_def Let_def ticker_wait_def log_Print_def upstream_outcome_def)
        next
          case parsed: (Inr r)
          with None Inr True bytes show ?thesis
            by (simp add: body callMethod_def Let_def ticker_wait_def SetCacheResponse_def
                upstream_outcome_def)
        qed
      qed
    qed
  qed
qed

lemma cacheWorker_passes_trace:
  "\<exists>evs. trace (cacheWorker_passes n e m w) = trace w @ evs \<and>
         phases_run e m (trace w) Call evs = Some Call \<and>
         length (filter is_tick evs) = n \<and>
         cacheResponse (cacheWorker_passes n e m w) = foldl store_event (cacheResponse w) evs"
proof (induction n arbitrary: w)
  case 0
  show ?case by simp
next
  case (Suc n)
  let ?w1 = "cacheWorker_body e m w"
  from cacheWorker_body_pass [of e m w]
  obtain evs1 where 1: "trace ?w1 = trace w @ evs1"
    "phases_run e m (trace w) Call evs1 = Some Call" "length (filter is_tick evs1) = 1"
    "cacheResponse ?w1 = foldl store_event (cacheResponse w) evs1"
    by auto
  from Suc.IH [of ?w1]
  obtain evs2 where 2: "trace (cacheWorker_passes n e m ?w1) = trace ?w1 @ evs2"
    "phases_run e m (trace ?w1) Call evs2 = Some Call" "length (filter is_tick evs2) = n"
    "cacheResponse (cacheWorker_passes n e m ?w1) = foldl store_event (cacheResponse ?w1) evs2"
    by auto
  have "trace (cacheWorker_passes (Suc n) e m w) = trace w @ (evs1 @ evs2)"
    using 1(1) 2(1) by simp
  moreover have "phases_run e m (trace w) Call (evs1 @ evs2) = Some Call"
    using 1(1,2) 2(2) by (simp add: phases_run_append)
  moreover have "length (filter is_tick (evs1 @ evs2)) = Suc n"
    using 1(3) 2(3) by simp
  moreover have "cacheResponse (cacheWorker_passes (Suc n) e m w) =
      foldl store_event (cacheResponse w) (evs1 @ evs2)"
    using 1(4) 2(4) by simp
  ultimately show ?case by blast
qed

subsection \<open>The table over the lifetime of the cache\<close>

lemma no_set_no_set_of: "filter is_set evs = [] \<Longrightarrow> filter (is_set_of m) evs = []"
  by (induction evs) (auto elim: is_set_of.elims split: if_splits)

text \<open>What one action does to the table and to the table writes in the trace.\<close>

lemma cacheWorker_body_effect:
  "(cacheResponse (cacheWorker_body e m w) = cacheResponse w \<and>
      (\<exists>evs. trace (cacheWorker_body e m w) = trace w @ evs \<and> filter is_set evs = []))
   \<or> (\<exists>r evs. cacheResponse (cacheWorker_body e m w) = (cacheResponse w)(m \<mapsto> r) \<and>
        trace (cacheWorker_body e m w) = trace w @ evs \<and> filter is_set evs = [EvSet m r])"
proof (cases "http_NewRequest_error e ''POST'' (NODE_ENDPOINT e)")
  case None
  from cacheWorker_body_cases [OF None, of w m] show ?thesis
  proof (elim disjE conjE exE)
    fix logs
    assume "cacheResponse (cacheWorker_body e m w) = cacheResponse w"
      and "list_all is_log logs"
      and "trace (cacheWorker_body e m w) = trace w @ EvDo (refreshRequest e m) # logs @ [EvTick]"
    then show ?thesis by (simp add: logs_hold_no_set)
  next
    fix r
    assume "cacheResponse (cacheWorker_body e m w) = (cacheResponse w)(m \<mapsto> r)"
      and "trace (cacheWorker_body e m w) = trace w @ [EvDo (refreshRequest e m), EvSet m r, EvTick]"
    then show ?thesis by simp
  qed
next
  case (Some err)
  show ?thesis
    by (simp add: cacheWorker_body_refused [OF Some] ticker_wait_def log_Print_def)
qed

lemma perform_effect:
  "(cacheResponse (perform e a w) = cacheResponse w \<and>
      (\<exists>evs. trace (perform e a w) = trace w @ evs \<and> filter is_set evs = []))
   \<or> (\<exists>m r evs. cacheResponse (perform e a w) = (cacheResponse w)(m \<mapsto> r) \<and>
        trace (perform e a w) = trace w @ evs \<and> filter is_set evs = [EvSet m r])"
proof (cases a)
  case (Refresh m)
  with cacheWorker_body_effect [of e m w] show ?thesis by auto
next
  case (Request req)
  with HandleRequest_frame [of e req w] show ?thesis by auto
next
  case (Put m r)
  then show ?thesis by (simp add: SetCacheResponse_def)
qed

text \<open>The table has an entry for a method exactly when the trace has a write for it.\<close>

lemma perform_keeps_match:
  assumes "\<And>m. (cacheResponse w m = None) = (filter (is_set_of m) (trace w) = [])"
  shows "(cacheResponse (perform e a w) m = None) = (filter (is_set_of m) (trace (perform e a w)) = [])"
proof -
  note w = assms [of m]
  from perform_effect [of e a w] show ?thesis
  proof (elim disjE conjE exE)
    fix evs
    assume "cacheResponse (perform e a w) = cacheResponse w"
      and "trace (perform e a w) = trace w @ evs" and "filter is_set evs = []"
    with w show ?thesis by (simp add: no_set_no_set_of)
  next
    fix m' r evs
    assume c: "cacheResponse (perform e a w) = (cacheResponse w)(m' \<mapsto> r)"
      and t: "trace (perform e a w) = trace w @ evs" and s: "filter is_set evs = [EvSet m' r]"
    have "filter (is_set_of m) evs = filter (is_set_of m) (filter is_set evs)"
      by (induction evs) (auto elim: is_set_of.elims)
    with s have "filter (is_set_of m) evs = (if m' = m then [EvSet m' r] else [])"
      by simp
    with w c t show ?thesis by simp
  qed
qed

lemma run_actions_keeps_match:
  assumes "\<And>m. (cacheResponse w m = None) = (filter (is_set_of m) (trace w) = [])"
  shows "(cacheResponse (run_actions e acts w) m = None) =
    (filter (is_set_of m) (trace (run_actions e acts w)) = [])"
  using assms
proof (induction acts arbitrary: w m)
  case Nil
  then show ?case by simp
next
  case (Cons a acts)
  have "(cacheResponse (perform e a w) m' = None) =
      (filter (is_set_of m') (trace (perform e a w)) = [])" for m'
    by (rule perform_keeps_match) (rule Cons.prems)
  then have "(cacheResponse (run_actions e acts (perform e a w)) m = None) =
      (filter (is_set_of m) (trace (run_actions e acts (perform e a w))) = [])"
    by (rule Cons.IH)
  then show ?case by simp
qed

lemma perform_keeps_entries:
  "cacheResponse w m \<noteq> None \<Longrightarrow> cacheResponse (perform e a w) m \<noteq> None"
  using perform_effect [of e a w] by auto

lemma run_actions_keeps_entries:
  "cacheResponse w m \<noteq> None \<Longrightarrow> cacheResponse (run_actions e acts w) m \<noteq> None"
proof (induction acts arbitrary: w)
  case Nil
  then show ?case by simp
next
  case (Cons a acts)
  from Cons.prems have "cacheResponse (perform e a w) m \<noteq> None"
    by (rule perform_keeps_entries)
  then have "cacheResponse (run_actions e acts (perform e a w)) m \<noteq> None"
    by (rule Cons.IH)
  then show ?case by simp
qed

section \<open>The claims\<close>

lemma HandleRequest_hit_document:
  assumes "req_Body req = Inr body"
    and "json_Unmarshal_Message e body = Inr message"
    and "cacheResponse w (msg_Method message) = Some cached"
  shows "HandleRequest e req w =
    (Inr (json_encode e (JObject
       ((if resp_Version cached = [] then [] else [(''jsonrpc'', JString (resp_Version cached))]) @
        (if msg_ID message = 0 then [] else [(''id'', JNumber (of_int (msg_ID message)))]) @
        (if resp_Result cached = JNull then [] else [(''result'', resp_Result cached)])))), w)"
  by (simp add: HandleRequest_hit [OF assms] JSONRPCResponse_fields_def)

text \<open>
  Claim C1 has every hit answer with the identifier of the request. \<open>GetCacheResponse\<close>
  copies the identifier of the request into the response it marshals, but the field is
  tagged \<open>id,omitempty\<close>: an identifier of 0 is left out of the document. A request
  with identifier 0 for a cached method gets an answer without \<open>id\<close>; a request with
  identifier 42 gets the cached version and result with \<open>id\<close> 42, whatever identifier
  the table holds.
\<close>

theorem HandleRequest_hit_drops_zero_id:
  "json_Unmarshal_Message (exampleEnv example_node_up)
      ''{\"jsonrpc\":\"2.0\",\"id\":0,\"method\":\"eth_gasPrice\"}'' =
     Inr \<lparr>msg_Version = ''2.0'', msg_ID = 0, msg_Method = ''eth_gasPrice'', msg_Params = []\<rparr>
   \<and> cacheResponse example_warm ''eth_gasPrice'' =
     Some \<lparr>resp_Version = ''2.0'', resp_ID = 0, resp_Result = JString ''0x4a817c800''\<rparr>
   \<and> HandleRequest (exampleEnv example_node_up)
      (example_inbound ''{\"jsonrpc\":\"2.0\",\"id\":0,\"method\":\"eth_gasPrice\"}'') example_warm =
     (Inr ''{\"jsonrpc\":\"2.0\",\"result\":\"0x4a817c800\"}'', example_warm)
   \<and> HandleRequest (exampleEnv example_node_up)
      (example_inbound ''{\"jsonrpc\":\"2.0\",\"id\":42,\"method\":\"eth_gasPrice\"}'') example_warm =
     (Inr ''{\"jsonrpc\":\"2.0\",\"id\":42,\"result\":\"0x4a817c800\"}'', example_warm)
   \<and> HandleRequest (exampleEnv example_node_up)
      (example_inbound ''{\"jsonrpc\":\"2.0\",\"id\":0,\"method\":\"eth_gasPrice\"}'') example_warm_other =
     (Inr ''{\"jsonrpc\":\"2.0\",\"result\":\"0x3b9aca00\"}'', example_warm_other)"
proof -
  let ?e = "exampleEnv example_node_up"
  let ?b0 = "''{\"jsonrpc\":\"2.0\",\"id\":0,\"method\":\"eth_gasPrice\"}''"
  let ?b42 = "''{\"jsonrpc\":\"2.0\",\"id\":42,\"method\":\"eth_gasPrice\"}''"
  have m0: "json_Unmarshal_Message ?e ?b0 =
      Inr \<lparr>msg_Version = ''2.0'', msg_ID = 0, msg_Method = ''eth_gasPrice'', msg_Params = []\<rparr>"
    by (simp add: exampleEnv_def example_Unmarshal_Message_def)
  have m42: "json_Unmarshal_Message ?e ?b42 =
      Inr \<lparr>msg_Version = ''2.0'', msg_ID = 42, msg_Method = ''eth_gasPrice'', msg_Params = []\<rparr>"
    by (simp add: exampleEnv_def example_Unmarshal_Message_def)
  have enc: "json_encode ?e = example_encode"
    by (simp add: exampleEnv_def)
  have body: "req_Body (example_inbound b) = Inr b" for b
    by (simp add: example_inbound_def)
  have warm: "cacheResponse example_warm ''eth_gasPrice'' =
      Some \<lparr>resp_Version = ''2.0'', resp_ID = 0, resp_Result = JString ''0x4a817c800''\<rparr>"
    by (simp add: example_warm_def example_gasPrice_def)
  have other: "cacheResponse example_warm_other ''eth_gasPrice'' =
      Some \<lparr>resp_Version = ''2.0'', resp_ID = 5, resp_Result = JString ''0x3b9aca00''\<rparr>"
    by (simp add: example_warm_other_def)
  have 1: "HandleRequest ?e (example_inbound ?b0) example_warm =
      (Inr ''{\"jsonrpc\":\"2.0\",\"result\":\"0x4a817c800\"}'', example_warm)"
    using HandleRequest_hit_document [OF body m0, of example_warm] warm
    by (simp add: enc)
  have 2: "HandleRequest ?e (example_inbound ?b42) example_warm =
      (Inr ''{\"jsonrpc\":\"2.0\",\"id\":42,\"result\":\"0x4a817c800\"}'', example_warm)"
    using HandleRequest_hit_document [OF body m42, of example_warm] warm
    by (simp add: enc example_number_def)
  have 3: "HandleRequest ?e (example_inbound ?b0) example_warm_other =
      (Inr ''{\"jsonrpc\":\"2.0\",\"result\":\"0x3b9aca00\"}'', example_warm_other)"
    using HandleRequest_hit_document [OF body m0, of example_warm_other] other
    by (simp add: enc)
  from m0 warm 1 2 3 show ?thesis by simp
qed

text \<open>
  Claim C2. A pass of the worker whose refresh fails (a transport error, a status other
  than 200, a payload \<open>json.Unmarshal\<close> rejects) leaves the table as it was, so every
  \<open>GetCacheResponse\<close> answers as before; the pass made its call, logged, and ended with
  the wait for the tick. The loop does not return, the next pass runs in the world this
  one left, and it calls the upstream again.
\<close>

theorem failed_refresh_keeps_cache_and_retries:
  assumes "http_NewRequest_error e ''POST'' (NODE_ENDPOINT e) = None"
    and "refresh_fails e (client_Do e (trace w) (refreshRequest e m))"
  shows "cacheResponse (cacheWorker_body e m w) = cacheResponse w
    \<and> (\<forall>message. GetCacheResponse e message (cacheWorker_body e m w) = GetCacheResponse e message w)
    \<and> trace (cacheWorker_body e m w) = trace w @ new_events w (cacheWorker_body e m w)
    \<and> (\<exists>logs. logs \<noteq> [] \<and> list_all is_log logs \<and>
          new_events w (cacheWorker_body e m w) = EvDo (refreshRequest e m) # logs @ [EvTick])
    \<and> cacheWorker e m w = None
    \<and> cacheWorker_passes (Suc n) e m w = cacheWorker_passes n e m (cacheWorker_body e m w)
    \<and> (\<exists>rest. new_events (cacheWorker_body e m w) (cacheWorker_body e m (cacheWorker_body e m w)) =
          EvDo (refreshRequest e m) # rest)"
proof -
  let ?w' = "cacheWorker_body e m w"
  from cacheWorker_body_cases [OF assms(1), of w m] assms(2)
  obtain logs where c: "cacheResponse ?w' = cacheResponse w"
    and l: "logs \<noteq> []" "list_all is_log logs"
    and t: "trace ?w' = trace w @ EvDo (refreshRequest e m) # logs @ [EvTick]"
    by auto
  from t have ev: "new_events w ?w' = EvDo (refreshRequest e m) # logs @ [EvTick]"
    by (simp add: new_events_def)
  from c have get: "GetCacheResponse e message ?w' = GetCacheResponse e message w" for message
    by (simp add: GetCacheResponse_def)
  from cacheWorker_body_cases [OF assms(1), of ?w' m]
  obtain rest where "trace (cacheWorker_body e m ?w') = trace ?w' @ EvDo (refreshRequest e m) # rest"
    by auto
  then have retry: "new_events ?w' (cacheWorker_body e m ?w') = EvDo (refreshRequest e m) # rest"
    by (simp add: new_events_def)
  from t ev have ext: "trace ?w' = trace w @ new_events w ?w'"
    by simp
  from c get ev l retry ext show ?thesis
    by (simp add: cacheWorker_never_returns)
qed

text \<open>
  The node answers 500: the gas price stored before is still there.
\<close>

theorem failed_refresh_keeps_cache_and_retries_witness:
  "cacheWorker_body (exampleEnv example_node_500) ''eth_gasPrice'' example_warm =
     example_warm\<lparr>trace :=
       [EvDo (refreshRequest (exampleEnv example_node_500) ''eth_gasPrice''),
        EvLog (StatusCodeError 500), EvTick]\<rparr>
   \<and> cacheResponse (cacheWorker_body (exampleEnv example_node_500) ''eth_gasPrice'' example_warm)
        ''eth_gasPrice'' = Some example_gasPrice"
proof -
  let ?e = "exampleEnv example_node_500"
  have built: "http_NewRequest_error ?e ''POST'' (NODE_ENDPOINT ?e) = None"
    by (simp add: exampleEnv_def)
  have fails: "refresh_fails ?e (client_Do ?e (trace example_warm) (refreshRequest ?e ''eth_gasPrice''))"
    by (simp add: exampleEnv_def example_node_500_def refresh_fails_def upstream_outcome_def)
  have run: "cacheWorker_body ?e ''eth_gasPrice'' example_warm =
     example_warm\<lparr>trace := [EvDo (refreshRequest ?e ''eth_gasPrice''), EvLog (StatusCodeError 500), EvTick]\<rparr>"
    by (simp add: cacheWorker_body_built [OF built] callMethod_def Let_def)
       (simp add: exampleEnv_def example_node_500_def example_warm_def ticker_wait_def log_Print_def)
  from failed_refresh_keeps_cache_and_retries [OF built fails, of 0]
  have "cacheResponse (cacheWorker_body ?e ''eth_gasPrice'' example_warm) = cacheResponse example_warm"
    by simp
  with run show ?thesis by (simp add: example_warm_def)
qed

text \<open>
  Claim C3, amended. The events of the first \<open>n\<close> passes of a worker are accepted by
  the state machine started in \<open>Call\<close>, and leave it in \<open>Call\<close>: every pass first
  calls the upstream with the refresh request of its method (it logs instead only when
  the request cannot be built); when the answer has status 200 and its bytes parse, the
  pass writes the parsed response under the method and nothing else, and in every
  other case it logs the failure and writes nothing; then it waits for the tick. There
  are exactly \<open>n\<close> waits, the table after the passes is the table before them with
  the writes among the events applied, and the loop never returns.
\<close>

theorem worker_calls_then_stores_or_logs_then_waits:
  "phases_run e m (trace w) Call (new_events w (cacheWorker_passes n e m w)) = Some Call
   \<and> length (filter is_tick (new_events w (cacheWorker_passes n e m w))) = n
   \<and> trace (cacheWorker_passes n e m w) = trace w @ new_events w (cacheWorker_passes n e m w)
   \<and> cacheResponse (cacheWorker_passes n e m w) =
       foldl store_event (cacheResponse w) (new_events w (cacheWorker_passes n e m w))
   \<and> cacheWorker e m w = None"
proof -
  from cacheWorker_passes_trace [of n e m w]
  obtain evs where t: "trace (cacheWorker_passes n e m w) = trace w @ evs"
    and p: "phases_run e m (trace w) Call evs = Some Call"
    and k: "length (filter is_tick evs) = n"
    and c: "cacheResponse (cacheWorker_passes n e m w) = foldl store_event (cacheResponse w) evs"
    by auto
  from t have ev: "new_events w (cacheWorker_passes n e m w) = evs"
    by (simp add: new_events_def)
  from t p k c show ?thesis
    unfolding ev by (simp add: cacheWorker_never_returns)
qed

text \<open>
  Two passes against a node that answers the first call and is down at the second: a
  store, then a log. The state machine accepts neither a log in place of the store nor
  the store of another value.
\<close>

theorem worker_calls_then_stores_or_logs_then_waits_witness:
  "new_events NewNodeCache
      (cacheWorker_passes (Suc (Suc 0)) (exampleEnv example_node_once) ''eth_gasPrice'' NewNodeCache) =
     [EvDo (refreshRequest (exampleEnv example_node_once) ''eth_gasPrice''),
      EvSet ''eth_gasPrice'' example_gasPrice, EvTick,
      EvDo (refreshRequest (exampleEnv example_node_once) ''eth_gasPrice''),
      EvLog (StatusCodeError 500), EvTick]
   \<and> phases_run (exampleEnv example_node_once) ''eth_gasPrice'' [] Call
       [EvDo (refreshRequest (exampleEnv example_node_once) ''eth_gasPrice''),
        EvSet ''eth_gasPrice'' example_gasPrice, EvTick,
        EvDo (refreshRequest (exampleEnv example_node_once) ''eth_gasPrice''),
        EvLog (StatusCodeError 500), EvTick] = Some Call
   \<and> cacheResponse
       (cacheWorker_passes (Suc (Suc 0)) (exampleEnv example_node_once) ''eth_gasPrice'' NewNodeCache)
       ''eth_gasPrice'' = Some example_gasPrice
   \<and> phases_run (exampleEnv example_node_once) ''eth_gasPrice'' [] Call
       [EvDo (refreshRequest (exampleEnv example_node_once) ''eth_gasPrice''),
        EvLog (StatusCodeError 500), EvTick] = None
   \<and> phases_run (exampleEnv example_node_once) ''eth_gasPrice'' [] Call
       [EvDo (refreshRequest (exampleEnv example_node_once) ''eth_gasPrice''),
        EvSet ''eth_gasPrice'' (example_gasPrice\<lparr>resp_Result := JNull\<rparr>), EvTick] = None"
proof -
  let ?e = "exampleEnv example_node_once"
  let ?w = "cacheWorker_passes (Suc (Suc 0)) ?e ''eth_gasPrice'' NewNodeCache"
  let ?rq = "refreshRequest ?e ''eth_gasPrice''"
  have built: "http_NewRequest_error ?e ''POST'' (NODE_ENDPOINT ?e) = None"
    by (simp add: exampleEnv_def)
  have unm: "json_Unmarshal_Response ?e = example_Unmarshal_Response"
    and cd: "client_Do ?e = example_node_once"
    by (simp_all add: exampleEnv_def)
  have run: "trace ?w = [EvDo ?rq, EvSet ''eth_gasPrice'' example_gasPrice, EvTick,
      EvDo ?rq, EvLog (StatusCodeError 500), EvTick]"
    by (simp add: cacheWorker_body_built [OF built] callMethod_def Let_def unm cd)
       (simp add: unm cd example_node_once_def example_Unmarshal_Response_def
          NewNodeCache_def ticker_wait_def SetCacheResponse_def log_Print_def
          cacheWorker_body_built [OF built] callMethod_def Let_def)
  then have ev: "new_events NewNodeCache ?w = [EvDo ?rq, EvSet ''eth_gasPrice'' example_gasPrice, EvTick,
      EvDo ?rq, EvLog (StatusCodeError 500), EvTick]"
    by (simp add: new_events_def NewNodeCache_def)
  from worker_calls_then_stores_or_logs_then_waits [of ?e "''eth_gasPrice''" NewNodeCache "Suc (Suc 0)"]
  have ok: "phases_run ?e ''eth_gasPrice'' [] Call (new_events NewNodeCache ?w) = Some Call"
    and tab: "cacheResponse ?w = foldl store_event (cacheResponse NewNodeCache) (new_events NewNodeCache ?w)"
    by (simp_all add: NewNodeCache_def)
  from tab have stored: "cacheResponse ?w ''eth_gasPrice'' = Some example_gasPrice"
    unfolding ev by (simp add: NewNodeCache_def)
  have no_skip: "phases_run ?e ''eth_gasPrice'' [] Call [EvDo ?rq, EvLog (StatusCodeError 500), EvTick] = None"
    by (simp add: built unm cd example_node_once_def upstream_outcome_def
        example_Unmarshal_Response_def)
  have no_other: "phases_run ?e ''eth_gasPrice'' [] Call
       [EvDo ?rq, EvSet ''eth_gasPrice'' (example_gasPrice\<lparr>resp_Result := JNull\<rparr>), EvTick] = None"
    by (simp add: built unm cd example_node_once_def upstream_outcome_def
        example_Unmarshal_Response_def example_gasPrice_def)
  from ev ok stored no_skip no_other show ?thesis by simp
qed

text \<open>
  Claim C3 as stated has the worker wait one interval before its first call. The first
  event of a worker is the call: the result is in the table before the first wait, and
  the state machine started in \<open>Wait\<close> rejects the trace.
\<close>

theorem worker_waits_first_counterexample:
  "trace (cacheWorker_passes (Suc 0) (exampleEnv example_node_up) ''eth_gasPrice'' NewNodeCache) =
     [EvDo (refreshRequest (exampleEnv example_node_up) ''eth_gasPrice''),
      EvSet ''eth_gasPrice'' example_gasPrice, EvTick]
   \<and> phases_run (exampleEnv example_node_up) ''eth_gasPrice'' [] Wait
        (trace (cacheWorker_passes (Suc 0) (exampleEnv example_node_up) ''eth_gasPrice'' NewNodeCache)) = None
   \<and> phases_run (exampleEnv example_node_up) ''eth_gasPrice'' [] Call
        (trace (cacheWorker_passes (Suc 0) (exampleEnv example_node_up) ''eth_gasPrice'' NewNodeCache)) = Some Call"
proof -
  let ?e = "exampleEnv example_node_up"
  have built: "http_NewRequest_error ?e ''POST'' (NODE_ENDPOINT ?e) = None"
    by (simp add: exampleEnv_def)
  have unm: "json_Unmarshal_Response ?e = example_Unmarshal_Response"
    and cd: "client_Do ?e = example_node_up"
    by (simp_all add: exampleEnv_def)
  have run: "trace (cacheWorker_passes (Suc 0) ?e ''eth_gasPrice'' NewNodeCache) =
     [EvDo (refreshRequest ?e ''eth_gasPrice''), EvSet ''eth_gasPrice'' example_gasPrice, EvTick]"
    by (simp add: cacheWorker_body_built [OF built] callMethod_def Let_def unm cd)
       (simp add: unm cd example_node_up_def example_Unmarshal_Response_def
          NewNodeCache_def ticker_wait_def SetCacheResponse_def)
  show ?thesis
    unfolding run
    by (simp add: built unm cd example_node_up_def upstream_outcome_def
        example_Unmarshal_Response_def)
qed

text \<open>
  Claim C4. \<open>callMethod\<close> returns a body exactly when the upstream answered with
  status 200 and the body could be read; the body returned is the upstream's. Any other
  status gives the error that carries the status code, a transport error of the call is
  passed on, and a failed read of the body gives an error: no body in any of these.
\<close>

theorem callMethod_body_iff_status_200:
  "(fst (callMethod e req w) = Inr b) =
      (\<exists>resp. client_Do e (trace w) req = Inr resp \<and> StatusCode resp = 200 \<and> resp_Body resp = Inr b)
    \<and> (\<forall>resp. client_Do e (trace w) req = Inr resp \<and> StatusCode resp \<noteq> 200 \<longrightarrow>
          fst (callMethod e req w) = Inl (StatusCodeError (StatusCode resp)))
    \<and> (\<forall>err. client_Do e (trace w) req = Inl err \<longrightarrow>
          fst (callMethod e req w) = Inl (LibError err))
    \<and> (\<forall>resp err. client_Do e (trace w) req = Inr resp \<and> resp_Body resp = Inl err \<longrightarrow>
          isl (fst (callMethod e req w)))"
proof (cases "client_Do e (trace w) req")
  case (Inl err)
  then show ?thesis by (simp add: callMethod_fst upstream_outcome_def)
next
  case (Inr resp)
  then show ?thesis
    by (cases "resp_Body resp") (auto simp: callMethod_fst upstream_outcome_def)
qed

text \<open>
  A node that answers 200, one that answers 500, and one that refuses the connection.
\<close>

theorem callMethod_body_iff_status_200_witness:
  "fst (callMethod (exampleEnv example_node_up) (refreshRequest (exampleEnv example_node_up) ''eth_gasPrice'') NewNodeCache)
     = Inr ''{\"jsonrpc\":\"2.0\",\"result\":\"0x4a817c800\"}''
   \<and> fst (callMethod (exampleEnv example_node_500) (refreshRequest (exampleEnv example_node_500) ''eth_gasPrice'') NewNodeCache)
     = Inl (StatusCodeError 500)
   \<and> fst (callMethod (exampleEnv (\<lambda>history req. Inl ''connection refused''))
        (refreshRequest (exampleEnv (\<lambda>history req. Inl ''connection refused'')) ''eth_gasPrice'') NewNodeCache)
     = Inl (LibError ''connection refused'')"
proof -
  let ?up = "exampleEnv example_node_up"
  let ?down = "exampleEnv example_node_500"
  let ?off = "exampleEnv (\<lambda>history req. Inl ''connection refused'')"
  have up: "client_Do ?up (trace NewNodeCache) (refreshRequest ?up ''eth_gasPrice'') =
      Inr \<lparr>StatusCode = 200, resp_Body = Inr ''{\"jsonrpc\":\"2.0\",\"result\":\"0x4a817c800\"}''\<rparr>"
    by (simp add: exampleEnv_def example_node_up_def)
  have down: "client_Do ?down (trace NewNodeCache) (refreshRequest ?down ''eth_gasPrice'') =
      Inr \<lparr>StatusCode = 500, resp_Body = Inr ''Internal Server Error''\<rparr>"
    by (simp add: exampleEnv_def example_node_500_def)
  have off: "client_Do ?off (trace NewNodeCache) (refreshRequest ?off ''eth_gasPrice'') =
      Inl ''connection refused''"
    by (simp add: exampleEnv_def)
  from callMethod_body_iff_status_200
      [of ?up "refreshRequest ?up ''eth_gasPrice''" NewNodeCache
          "''{\"jsonrpc\":\"2.0\",\"result\":\"0x4a817c800\"}''"] up
  have 1: "fst (callMethod ?up (refreshRequest ?up ''eth_gasPrice'') NewNodeCache)
     = Inr ''{\"jsonrpc\":\"2.0\",\"result\":\"0x4a817c800\"}''"
    by simp
  from callMethod_body_iff_status_200
      [of ?down "refreshRequest ?down ''eth_gasPrice''" NewNodeCache "[]"] down
  have 2: "fst (callMethod ?down (refreshRequest ?down ''eth_gasPrice'') NewNodeCache)
     = Inl (StatusCodeError 500)"
    by simp
  from callMethod_body_iff_status_200
      [of ?off "refreshRequest ?off ''eth_gasPrice''" NewNodeCache "[]"] off
  have 3: "fst (callMethod ?off (refreshRequest ?off ''eth_gasPrice'') NewNodeCache)
     = Inl (LibError ''connection refused'')"
    by simp
  from 1 2 3 show ?thesis by simp
qed

text \<open>
  Claim C5. After any sequence of worker passes, inbound requests and puts on a new
  cache, \<open>GetCacheResponse\<close> returns its not-found error for a method exactly when the
  history holds no table write for that method, and it returns an error in no other
  case. Once it has answered for a method it answers after every further sequence of
  actions: entries are written, never removed.
\<close>

theorem get_NotFound_iff_never_put:
  "(GetCacheResponse e message (run_actions e acts NewNodeCache) =
       Inl (NotSupportedCaching (msg_Method message))) =
     (filter (is_set_of (msg_Method message)) (trace (run_actions e acts NewNodeCache)) = [])
   \<and> isl (GetCacheResponse e message (run_actions e acts NewNodeCache)) =
     (filter (is_set_of (msg_Method message)) (trace (run_actions e acts NewNodeCache)) = [])
   \<and> (\<forall>w more. \<not> isl (GetCacheResponse e message w) \<longrightarrow>
         \<not> isl (GetCacheResponse e message (run_actions e more w)))"
proof -
  have "(cacheResponse (run_actions e acts NewNodeCache) (msg_Method message) = None) =
      (filter (is_set_of (msg_Method message)) (trace (run_actions e acts NewNodeCache)) = [])"
    by (rule run_actions_keeps_match) (simp add: NewNodeCache_def)
  then show ?thesis
    using run_actions_keeps_entries [of _ "msg_Method message" e]
    by (simp add: GetCacheResponse_miss GetCacheResponse_NotFound)
qed

text \<open>
  Not found on the new cache; found after one successful pass, and still found after more
  actions.
\<close>

theorem get_NotFound_iff_never_put_witness:
  "GetCacheResponse (exampleEnv example_node_up)
      \<lparr>msg_Version = ''2.0'', msg_ID = 7, msg_Method = ''eth_gasPrice'', msg_Params = []\<rparr>
      (run_actions (exampleEnv example_node_up) [] NewNodeCache) =
     Inl (NotSupportedCaching ''eth_gasPrice'')
   \<and> GetCacheResponse (exampleEnv example_node_up)
      \<lparr>msg_Version = ''2.0'', msg_ID = 7, msg_Method = ''eth_gasPrice'', msg_Params = []\<rparr>
      (run_actions (exampleEnv example_node_up) [Refresh ''eth_gasPrice''] NewNodeCache) =
     Inr ''{\"jsonrpc\":\"2.0\",\"id\":7,\"result\":\"0x4a817c800\"}''
   \<and> isl (GetCacheResponse (exampleEnv example_node_up)
      \<lparr>msg_Version = ''2.0'', msg_ID = 7, msg_Method = ''eth_gasPrice'', msg_Params = []\<rparr>
      (run_actions (exampleEnv example_node_up)
         [Refresh ''eth_gasPrice'', Request (example_inbound ''not json''), Refresh ''eth_blockNumber'']
         NewNodeCache)) = False"
proof -
  let ?e = "exampleEnv example_node_up"
  let ?msg = "\<lparr>msg_Version = ''2.0'', msg_ID = 7, msg_Method = ''eth_gasPrice'', msg_Params = []\<rparr>"
  have built: "http_NewRequest_error ?e ''POST'' (NODE_ENDPOINT ?e) = None"
    by (simp add: exampleEnv_def)
  have run: "run_actions ?e [Refresh ''eth_gasPrice''] NewNodeCache =
     \<lparr>cacheResponse = [''eth_gasPrice'' \<mapsto> example_gasPrice],
      trace = [EvDo (refreshRequest ?e ''eth_gasPrice''), EvSet ''eth_gasPrice'' example_gasPrice, EvTick]\<rparr>"
    by (simp add: cacheWorker_body_built [OF built] callMethod_def Let_def)
       (simp add: exampleEnv_def example_node_up_def example_Unmarshal_Response_def
          NewNodeCache_def ticker_wait_def SetCacheResponse_def)
  from get_NotFound_iff_never_put [of ?e ?msg "[]"]
  have 1: "GetCacheResponse ?e ?msg (run_actions ?e [] NewNodeCache) =
     Inl (NotSupportedCaching ''eth_gasPrice'')"
    by (simp add: NewNodeCache_def)
  have 2: "GetCacheResponse ?e ?msg (run_actions ?e [Refresh ''eth_gasPrice''] NewNodeCache) =
     Inr ''{\"jsonrpc\":\"2.0\",\"id\":7,\"result\":\"0x4a817c800\"}''"
    unfolding run
    by (simp add: GetCacheResponse_def json_Marshal_Response_def JSONRPCResponse_fields_def
        example_gasPrice_def exampleEnv_def example_number_def)
  have stays: "\<not> isl (GetCacheResponse ?e ?msg (run_actions ?e more w))"
    if "\<not> isl (GetCacheResponse ?e ?msg w)" for w more
    using get_NotFound_iff_never_put [of ?e ?msg "[]"] that by blast
  from 2 have "\<not> isl (GetCacheResponse ?e ?msg (run_actions ?e [Refresh ''eth_gasPrice''] NewNodeCache))"
    by simp
  then have "\<not> isl (GetCacheResponse ?e ?msg (run_actions ?e
         [Request (example_inbound ''not json''), Refresh ''eth_blockNumber'']
         (run_actions ?e [Refresh ''eth_gasPrice''] NewNodeCache)))"
    by (rule stays)
  then have 3: "isl (GetCacheResponse ?e ?msg (run_actions ?e
         [Refresh ''eth_gasPrice'', Request (example_inbound ''not json''), Refresh ''eth_blockNumber'']
         NewNodeCache)) = False"
    by simp
  from 1 2 3 show ?thesis by simp
qed

text \<open>
  Claim C6, amended. When the body parses, the table has no entry for the method and the
  outbound request can be built, \<open>HandleRequest\<close> makes exactly one upstream call; the
  request sent carries the caller's body as it came and the fixed User-Agent header. The
  answer is what \<open>callMethod\<close> makes of the upstream's answer: the upstream's bytes
  when the status is 200 and the body was read, an error otherwise. It is never the
  not-found error of the table.
\<close>

theorem HandleRequest_miss_forwards_once:
  assumes "req_Body req = Inr body"
    and "json_Unmarshal_Message e body = Inr message"
    and "cacheResponse w (msg_Method message) = None"
    and "http_NewRequest_error e (req_Method req) (NODE_ENDPOINT e) = None"
  shows "trace (snd (HandleRequest e req w)) = trace w @ new_events w (snd (HandleRequest e req w))
    \<and> filter is_do (new_events w (snd (HandleRequest e req w))) = [EvDo (forwardedRequest e req body)]
    \<and> req_Body (forwardedRequest e req body) = Inr body
    \<and> req_Header (forwardedRequest e req body) ''User-Agent'' = Some [userAgent]
    \<and> fst (HandleRequest e req w) = upstream_outcome (client_Do e (trace w) (forwardedRequest e req body))
    \<and> (\<forall>b. (fst (HandleRequest e req w) = Inr b) =
          (\<exists>resp. client_Do e (trace w) (forwardedRequest e req body) = Inr resp \<and>
                  StatusCode resp = 200 \<and> resp_Body resp = Inr b))
    \<and> fst (HandleRequest e req w) \<noteq> Inl (NotSupportedCaching (msg_Method message))"
proof -
  have miss: "isl (json_Unmarshal_Message e body) \<or>
      cacheResponse w (msg_Method (projr (json_Unmarshal_Message e body))) = None"
    using assms(2,3) by simp
  have fwd: "HandleRequest e req w = callMethod e (forwardedRequest e req body) w"
    by (rule HandleRequest_forward [OF assms(1) miss assms(4)])
  have out: "fst (HandleRequest e req w) =
      upstream_outcome (client_Do e (trace w) (forwardedRequest e req body))"
    by (simp add: fwd callMethod_fst)
  have ext: "trace (snd (HandleRequest e req w)) = trace w @ new_events w (snd (HandleRequest e req w))"
    unfolding fwd by (rule callMethod_extends)
  have once: "filter is_do (new_events w (snd (HandleRequest e req w))) = [EvDo (forwardedRequest e req body)]"
    by (simp add: fwd callMethod_calls_once)
  have sent: "req_Body (forwardedRequest e req body) = Inr body"
    "req_Header (forwardedRequest e req body) ''User-Agent'' = Some [userAgent]"
    by (simp_all add: forwardedRequest_def)
  from ext once sent show ?thesis
    by (simp add: out upstream_outcome_Inr upstream_outcome_not_miss)
qed

text \<open>
  A request for a method that is not in the table, against a node that answers 200.
\<close>

theorem HandleRequest_miss_forwards_once_witness:
  "filter is_do (new_events example_warm (snd (HandleRequest (exampleEnv example_node_up)
      (example_inbound ''{\"jsonrpc\":\"2.0\",\"id\":1,\"method\":\"eth_blockNumber\"}'') example_warm))) =
     [EvDo \<lparr>req_Method = ''POST'', req_URL = ''http://localhost:8545'',
            req_Header = [''User-Agent'' \<mapsto> [userAgent]],
            req_Body = Inr ''{\"jsonrpc\":\"2.0\",\"id\":1,\"method\":\"eth_blockNumber\"}''\<rparr>]
   \<and> fst (HandleRequest (exampleEnv example_node_up)
      (example_inbound ''{\"jsonrpc\":\"2.0\",\"id\":1,\"method\":\"eth_blockNumber\"}'') example_warm) =
     Inr ''{\"jsonrpc\":\"2.0\",\"result\":\"0x4a817c800\"}''"
  using HandleRequest_miss_forwards_once
    [of "example_inbound ''{\"jsonrpc\":\"2.0\",\"id\":1,\"method\":\"eth_blockNumber\"}''"
        "''{\"jsonrpc\":\"2.0\",\"id\":1,\"method\":\"eth_blockNumber\"}''"
        "exampleEnv example_node_up"
        "\<lparr>msg_Version = ''2.0'', msg_ID = 1, msg_Method = ''eth_blockNumber'', msg_Params = []\<rparr>"
        example_warm]
  by (simp add: example_inbound_def exampleEnv_def example_Unmarshal_Message_def
      example_warm_def forwardedRequest_def upstream_outcome_def example_node_up_def)

text \<open>
  Claim C6 as stated has the upstream's bytes relayed on every miss. The node answers
  500 with a body: the caller gets the status-code error and not those bytes.
\<close>

theorem HandleRequest_miss_relays_bytes_counterexample:
  "cacheResponse example_warm ''eth_blockNumber'' = None
   \<and> client_Do (exampleEnv example_node_500) (trace example_warm)
        (forwardedRequest (exampleEnv example_node_500)
           (example_inbound ''{\"jsonrpc\":\"2.0\",\"id\":1,\"method\":\"eth_blockNumber\"}'')
           ''{\"jsonrpc\":\"2.0\",\"id\":1,\"method\":\"eth_blockNumber\"}'') =
       Inr \<lparr>StatusCode = 500, resp_Body = Inr ''Internal Server Error''\<rparr>
   \<and> fst (HandleRequest (exampleEnv example_node_500)
        (example_inbound ''{\"jsonrpc\":\"2.0\",\"id\":1,\"method\":\"eth_blockNumber\"}'') example_warm) =
       Inl (StatusCodeError 500)
   \<and> fst (HandleRequest (exampleEnv example_node_500)
        (example_inbound ''{\"jsonrpc\":\"2.0\",\"id\":1,\"method\":\"eth_blockNumber\"}'') example_warm) \<noteq>
       Inr ''Internal Server Error''"
  by (simp add: HandleRequest_def GetCacheResponse_def cloneRequest_def callMethod_def
      http_NewRequest_def Header_Set_def Let_def
      example_inbound_def exampleEnv_def example_Unmarshal_Message_def
      example_warm_def example_node_500_def)

text \<open>
  Claim C7, amended. When the body does not parse and the outbound request can be built,
  \<open>HandleRequest\<close> is the upstream call with the caller's body as it came: one call,
  the answer is what \<open>callMethod\<close> makes of the upstream's answer, and the table is
  not consulted (any other table gives the same answer and the same trace).
\<close>

theorem HandleRequest_unparseable_body_is_forwarded:
  assumes "req_Body req = Inr body"
    and "json_Unmarshal_Message e body = Inl parseErr"
    and "http_NewRequest_error e (req_Method req) (NODE_ENDPOINT e) = None"
  shows "HandleRequest e req w = callMethod e (forwardedRequest e req body) w
    \<and> filter is_do (new_events w (snd (HandleRequest e req w))) = [EvDo (forwardedRequest e req body)]
    \<and> req_Body (forwardedRequest e req body) = Inr body
    \<and> fst (HandleRequest e req w) = upstream_outcome (client_Do e (trace w) (forwardedRequest e req body))
    \<and> (\<forall>table. fst (HandleRequest e req (w\<lparr>cacheResponse := table\<rparr>)) = fst (HandleRequest e req w)
          \<and> trace (snd (HandleRequest e req (w\<lparr>cacheResponse := table\<rparr>))) = trace (snd (HandleRequest e req w)))"
proof -
  have miss: "isl (json_Unmarshal_Message e body) \<or>
      cacheResponse w' (msg_Method (projr (json_Unmarshal_Message e body))) = None" for w'
    using assms(2) by simp
  have fwd: "HandleRequest e req w' = callMethod e (forwardedRequest e req body) w'" for w'
    by (rule HandleRequest_forward [OF assms(1) miss assms(3)])
  have same: "fst (callMethod e r (w\<lparr>cacheResponse := table\<rparr>)) = fst (callMethod e r w)
      \<and> trace (snd (callMethod e r (w\<lparr>cacheResponse := table\<rparr>))) = trace (snd (callMethod e r w))"
    for r table
    by (simp add: callMethod_def log_Print_def Let_def split: sum.splits)
  show ?thesis
    by (simp add: fwd same callMethod_calls_once callMethod_fst)
       (simp add: forwardedRequest_def)
qed

text \<open>
  A body that is not JSON goes upstream as it is, although the table is warm.
\<close>

theorem HandleRequest_unparseable_body_is_forwarded_witness:
  "HandleRequest (exampleEnv example_node_up) (example_inbound ''not json'') example_warm =
     (Inr ''{\"jsonrpc\":\"2.0\",\"result\":\"0x4a817c800\"}'',
      example_warm\<lparr>trace := [EvDo \<lparr>req_Method = ''POST'', req_URL = ''http://localhost:8545'',
            req_Header = [''User-Agent'' \<mapsto> [userAgent]], req_Body = Inr ''not json''\<rparr>]\<rparr>)"
  using HandleRequest_unparseable_body_is_forwarded
    [of "example_inbound ''not json''" "''not json''" "exampleEnv example_node_up"
        "''invalid character''" example_warm]
  by (simp add: example_inbound_def exampleEnv_def example_Unmarshal_Message_def
      example_warm_def forwardedRequest_def callMethod_def example_node_up_def)

text \<open>
  Claim C7 as stated has every unparseable body forwarded. When \<open>http.NewRequest\<close>
  refuses the endpoint, \<open>HandleRequest\<close> returns that error to the caller and makes no
  upstream call.
\<close>

theorem HandleRequest_unparseable_body_rejected_locally_counterexample:
  "json_Unmarshal_Message example_misconfigured ''not json'' = Inl ''invalid character''
   \<and> HandleRequest example_misconfigured (example_inbound ''not json'') NewNodeCache =
     (Inl (LibError ''parse http://localhost:port: invalid port \":port\" after host''),
      NewNodeCache\<lparr>trace :=
        [EvLog (LibError ''parse http://localhost:port: invalid port \":port\" after host''),
         EvLog (LibError ''parse http://localhost:port: invalid port \":port\" after host'')]\<rparr>)
   \<and> filter is_do (trace (snd (HandleRequest example_misconfigured
        (example_inbound ''not json'') NewNodeCache))) = []"
  by (simp add: HandleRequest_def cloneRequest_def http_NewRequest_def Let_def log_Print_def
      example_misconfigured_def exampleEnv_def example_Unmarshal_Message_def
      example_inbound_def NewNodeCache_def)

text \<open>
  Claim C8. \<open>HandleRequest\<close> leaves the table as it was and its events hold no table
  write; on a hit the stored entry is still the one stored, whatever identifier the
  answer carried.
\<close>

theorem HandleRequest_never_writes_cache:
  "cacheResponse (snd (HandleRequest e req w)) = cacheResponse w
   \<and> trace (snd (HandleRequest e req w)) = trace w @ new_events w (snd (HandleRequest e req w))
   \<and> filter is_set (new_events w (snd (HandleRequest e req w))) = []
   \<and> (\<forall>body message cached.
        req_Body req = Inr body \<and> json_Unmarshal_Message e body = Inr message \<and>
        cacheResponse w (msg_Method message) = Some cached \<longrightarrow>
        cacheResponse (snd (HandleRequest e req w)) (msg_Method message) = Some cached)"
proof -
  from HandleRequest_frame [of e req w]
  obtain evs where c: "cacheResponse (snd (HandleRequest e req w)) = cacheResponse w"
    and t: "trace (snd (HandleRequest e req w)) = trace w @ evs"
    and s: "filter is_set evs = []"
    by auto
  from t have "new_events w (snd (HandleRequest e req w)) = evs"
    by (simp add: new_events_def)
  with c s t show ?thesis by simp
qed

text \<open>
  A hit with identifier 42 leaves the stored identifier 0; a miss leaves the table too.
\<close>

theorem HandleRequest_never_writes_cache_witness:
  "cacheResponse (snd (HandleRequest (exampleEnv example_node_up)
      (example_inbound ''{\"jsonrpc\":\"2.0\",\"id\":42,\"method\":\"eth_gasPrice\"}'') example_warm))
     ''eth_gasPrice'' = Some example_gasPrice
   \<and> resp_ID example_gasPrice = 0
   \<and> cacheResponse (snd (HandleRequest (exampleEnv example_node_up)
      (example_inbound ''{\"jsonrpc\":\"2.0\",\"id\":1,\"method\":\"eth_blockNumber\"}'') example_warm))
     = cacheResponse example_warm"
  using HandleRequest_never_writes_cache [of "exampleEnv example_node_up"
      "example_inbound ''{\"jsonrpc\":\"2.0\",\"id\":42,\"method\":\"eth_gasPrice\"}''" example_warm]
    HandleRequest_never_writes_cache [of "exampleEnv example_node_up"
      "example_inbound ''{\"jsonrpc\":\"2.0\",\"id\":1,\"method\":\"eth_blockNumber\"}''" example_warm]
  by (simp add: example_warm_def example_gasPrice_def)

text \<open>
  Claim C9 has the envelope of a refresh carry a \<open>params\<close> member holding the empty
  list. \<open>makeRequest\<close> sets \<open>Params\<close> to the empty slice, and \<open>omitempty\<close> drops it
  (and the zero identifier) from the document: for \<open>eth_gasPrice\<close> the body sent is the
  version and the method name, posted to the endpoint.
\<close>

theorem refresh_envelope_has_no_params:
  "fst (makeRequest (exampleEnv example_node_up) ''eth_gasPrice'' NewNodeCache) =
     Inr \<lparr>req_Method = ''POST'', req_URL = ''http://localhost:8545'', req_Header = Map.empty,
          req_Body = Inr ''{\"jsonrpc\":\"2.0\",\"method\":\"eth_gasPrice\"}''\<rparr>
   \<and> refreshRequest (exampleEnv example_node_up) ''eth_gasPrice'' =
     \<lparr>req_Method = ''POST'', req_URL = ''http://localhost:8545'',
      req_Header = [''User-Agent'' \<mapsto> [userAgent]],
      req_Body = Inr ''{\"jsonrpc\":\"2.0\",\"method\":\"eth_gasPrice\"}''\<rparr>
   \<and> map_of (JSONRPCMessage_fields
        \<lparr>msg_Version = ''2.0'', msg_ID = 0, msg_Method = ''eth_gasPrice'', msg_Params = []\<rparr>) ''params'' = None"
  by (simp add: makeRequest_def json_Marshal_Message_def http_NewRequest_def refreshRequest_def
      refresh_envelope_fields exampleEnv_def)

text \<open>
  Claim C10. On a hit the answer is the document of the entry's fields. It has no
  \<open>id\<close> member when the identifier of the request is zero, no \<open>result\<close> member when
  the stored result is null, and in no case a member \<open>id\<close> with value 0 or a member
  \<open>result\<close> with value null.
\<close>

theorem cache_hit_omits_zero_id_and_null_result:
  assumes "req_Body req = Inr body"
    and "json_Unmarshal_Message e body = Inr message"
    and "cacheResponse w (msg_Method message) = Some cached"
  shows "fst (HandleRequest e req w) =
      Inr (json_encode e (JObject (JSONRPCResponse_fields (cached\<lparr>resp_ID := msg_ID message\<rparr>))))
    \<and> (msg_ID message = 0 \<longrightarrow>
          ''id'' \<notin> fst ` set (JSONRPCResponse_fields (cached\<lparr>resp_ID := msg_ID message\<rparr>)))
    \<and> (resp_Result cached = JNull \<longrightarrow>
          ''result'' \<notin> fst ` set (JSONRPCResponse_fields (cached\<lparr>resp_ID := msg_ID message\<rparr>)))
    \<and> (''id'', JNumber 0) \<notin> set (JSONRPCResponse_fields (cached\<lparr>resp_ID := msg_ID message\<rparr>))
    \<and> (''result'', JNull) \<notin> set (JSONRPCResponse_fields (cached\<lparr>resp_ID := msg_ID message\<rparr>))"
proof (intro conjI impI)
  show "fst (HandleRequest e req w) =
      Inr (json_encode e (JObject (JSONRPCResponse_fields (cached\<lparr>resp_ID := msg_ID message\<rparr>))))"
    by (simp add: HandleRequest_hit [OF assms])
next
  assume "msg_ID message = 0"
  then show "''id'' \<notin> fst ` set (JSONRPCResponse_fields (cached\<lparr>resp_ID := msg_ID message\<rparr>))"
    by (simp add: JSONRPCResponse_fields_keys)
next
  assume "resp_Result cached = JNull"
  then show "''result'' \<notin> fst ` set (JSONRPCResponse_fields (cached\<lparr>resp_ID := msg_ID message\<rparr>))"
    by (simp add: JSONRPCResponse_fields_keys)
next
  show "(''id'', JNumber 0) \<notin> set (JSONRPCResponse_fields (cached\<lparr>resp_ID := msg_ID message\<rparr>))"
    by (simp add: JSONRPCResponse_fields_def)
next
  show "(''result'', JNull) \<notin> set (JSONRPCResponse_fields (cached\<lparr>resp_ID := msg_ID message\<rparr>))"
    by (simp add: JSONRPCResponse_fields_def)
qed

text \<open>
  A request without identifier (decoded as 0) and an entry whose result is null.
\<close>

theorem cache_hit_omits_zero_id_and_null_result_witness:
  "fst (HandleRequest (exampleEnv example_node_up)
     (example_inbound ''{\"jsonrpc\":\"2.0\",\"method\":\"eth_gasPrice\"}'') example_warm) =
     Inr ''{\"jsonrpc\":\"2.0\",\"result\":\"0x4a817c800\"}''
   \<and> fst (HandleRequest (exampleEnv example_node_up)
     (example_inbound ''{\"id\":7,\"method\":\"eth_gasPrice\"}'')
     \<lparr>cacheResponse = [''eth_gasPrice'' \<mapsto> \<lparr>resp_Version = ''2.0'', resp_ID = 0, resp_Result = JNull\<rparr>],
      trace = []\<rparr>) =
     Inr ''{\"jsonrpc\":\"2.0\",\"id\":7}''"
  using cache_hit_omits_zero_id_and_null_result
    [of "example_inbound ''{\"jsonrpc\":\"2.0\",\"method\":\"eth_gasPrice\"}''"
        "''{\"jsonrpc\":\"2.0\",\"method\":\"eth_gasPrice\"}''"
        "exampleEnv example_node_up"
        "\<lparr>msg_Version = ''2.0'', msg_ID = 0, msg_Method = ''eth_gasPrice'', msg_Params = []\<rparr>"
        example_warm example_gasPrice]
    cache_hit_omits_zero_id_and_null_result
    [of "example_inbound ''{\"id\":7,\"method\":\"eth_gasPrice\"}''"
        "''{\"id\":7,\"method\":\"eth_gasPrice\"}''"
        "exampleEnv example_node_up"
        "\<lparr>msg_Version = [], msg_ID = 7, msg_Method = ''eth_gasPrice'', msg_Params = []\<rparr>"
        "\<lparr>cacheResponse = [''eth_gasPrice'' \<mapsto> \<lparr>resp_Version = ''2.0'', resp_ID = 0, resp_Result = JNull\<rparr>],
      trace = []\<rparr>"
        "\<lparr>resp_Version = ''2.0'', resp_ID = 0, resp_Result = JNull\<rparr>"]
  by (simp add: example_inbound_def exampleEnv_def example_Unmarshal_Message_def
      example_warm_def example_gasPrice_def JSONRPCResponse_fields_def example_number_def)

end
